theory Spec2Isabelle
  imports Complex_Main
begin

section \<open>The canvas\<close>

text \<open>
  The client (\<^verbatim>\<open>src/myapp/src/App.jsx\<close>) keeps two canvas elements: the visible
  canvas with the preview, and a hidden mask canvas.  A canvas is its size and its
  backing store, one RGBA pixel per position in row-major order, every channel a byte.
  \<^verbatim>\<open>getImageData(0, 0, width, height).data\<close> is the flat byte array of that store,
  four bytes per pixel, which is what the loops of the source index.
\<close>

type_synonym rgba = "nat \<times> nat \<times> nat \<times> nat"

record bitmap =
  width :: nat
  height :: nat
  pixels :: "rgba list"

definition red :: "rgba \<Rightarrow> nat" where
  "red p = fst p"

definition alpha :: "rgba \<Rightarrow> nat" where
  "alpha p = snd (snd (snd p))"

definition opaque :: "bitmap \<Rightarrow> bool" where
  "opaque b = list_all (\<lambda>p. alpha p = 255) (pixels b)"

text \<open>Setting \<^verbatim>\<open>canvas.width\<close> and \<^verbatim>\<open>canvas.height\<close> resizes the canvas and
  clears it to transparent black.\<close>

definition blank :: "nat \<Rightarrow> nat \<Rightarrow> bitmap" where
  "blank w h = \<lparr>width = w, height = h, pixels = replicate (w * h) (0, 0, 0, 0)\<rparr>"

definition getImageData :: "bitmap \<Rightarrow> nat list" where
  "getImageData b = concat (map (\<lambda>(r, g, b, a). [r, g, b, a]) (pixels b))"

text \<open>
  Every drawing call of the source composites with the default operator, source-over.
  A canvas keeps its pixels with the colours premultiplied by the coverage, and
  \<^verbatim>\<open>getImageData\<close> divides them out again.  A pixel of a bitmap here is what
  \<^verbatim>\<open>getImageData\<close> reads, so compositing a source pixel \<open>s\<close> over the pixel \<open>d\<close>
  on the canvas premultiplies both, adds the source to the destination scaled by
  \<open>1 - sa\<close>, and divides the coverage out of the result.  Every scaling of a byte
  rounds to the nearest byte.
\<close>

definition div255 :: "nat \<Rightarrow> nat" where
  "div255 x = (x + 127) div 255"

definition premultiply :: "rgba \<Rightarrow> rgba" where
  "premultiply p =
     (case p of (r, g, b, a) \<Rightarrow> (div255 (r * a), div255 (g * a), div255 (b * a), a))"

definition unpremultiply :: "rgba \<Rightarrow> rgba" where
  "unpremultiply p =
     (case p of (r, g, b, a) \<Rightarrow>
        if a = 0 then (0, 0, 0, 0)
        else ((r * 255 + a div 2) div a, (g * 255 + a div 2) div a,
              (b * 255 + a div 2) div a, a))"

definition over_premultiplied :: "rgba \<Rightarrow> rgba \<Rightarrow> rgba" where
  "over_premultiplied s d =
     (case s of (sr, sg, sb, sa) \<Rightarrow> case d of (dr, dg, db, da) \<Rightarrow>
        (sr + div255 (dr * (255 - sa)), sg + div255 (dg * (255 - sa)),
         sb + div255 (db * (255 - sa)), sa + div255 (da * (255 - sa))))"

definition source_over :: "rgba \<Rightarrow> rgba \<Rightarrow> rgba" where
  "source_over s d = unpremultiply (over_premultiplied (premultiply s) (premultiply d))"

text \<open>A pixel whose four channels are bytes, and a premultiplied pixel: no colour
  exceeds the coverage.\<close>

definition byte_pixel :: "rgba \<Rightarrow> bool" where
  "byte_pixel p =
     (case p of (r, g, b, a) \<Rightarrow> r \<le> 255 \<and> g \<le> 255 \<and> b \<le> 255 \<and> a \<le> 255)"

definition premultiplied :: "rgba \<Rightarrow> bool" where
  "premultiplied p =
     (case p of (r, g, b, a) \<Rightarrow> r \<le> a \<and> g \<le> a \<and> b \<le> a \<and> a \<le> 255)"

text \<open>\<^verbatim>\<open>fillStyle = 'black'\<close>, \<^verbatim>\<open>'white'\<close>, and \<^verbatim>\<open>'red'\<close> under
  \<^verbatim>\<open>globalAlpha = 0.4\<close> (0.4 * 255 = 102).\<close>

definition black :: rgba where
  "black = (0, 0, 0, 255)"

definition white :: "nat \<Rightarrow> rgba" where
  "white a = (255, 255, 255, a)"

definition red_overlay :: rgba where
  "red_overlay = (255, 0, 0, 102)"

text \<open>\<^verbatim>\<open>fillRect(0, 0, canvas.width, canvas.height)\<close>: the whole canvas.\<close>

definition fillRect_all :: "rgba \<Rightarrow> bitmap \<Rightarrow> bitmap" where
  "fillRect_all col b = b\<lparr>pixels := map (source_over col) (pixels b)\<rparr>"

text \<open>\<^verbatim>\<open>fillRect(x, y, 1, 1)\<close>: one pixel, clipped to the canvas.\<close>

definition fillRect1 :: "rgba \<Rightarrow> nat \<Rightarrow> nat \<Rightarrow> bitmap \<Rightarrow> bitmap" where
  "fillRect1 col x y b =
     (if x < width b \<and> y < height b \<and> y * width b + x < length (pixels b)
      then b\<lparr>pixels := (pixels b)[y * width b + x :=
                 source_over col (pixels b ! (y * width b + x))]\<rparr>
      else b)"

text \<open>\<^verbatim>\<open>ctx.drawImage(img, 0, 0)\<close>: the image at the origin, clipped to the canvas,
  composited over what the canvas holds, its coverage scaled by the context's
  \<^verbatim>\<open>globalAlpha\<close> (a byte here: 255 is 1.0).\<close>

definition scale_alpha :: "nat \<Rightarrow> rgba \<Rightarrow> rgba" where
  "scale_alpha ga p = (case p of (r, g, b, a) \<Rightarrow> (r, g, b, div255 (a * ga)))"

definition drawImage :: "nat \<Rightarrow> bitmap \<Rightarrow> bitmap \<Rightarrow> bitmap" where
  "drawImage ga img b =
     b\<lparr>pixels := map (\<lambda>i.
          let x = i mod width b; y = i div width b in
          if x < width img \<and> y < height img \<and> y * width img + x < length (pixels img)
          then source_over (scale_alpha ga (pixels img ! (y * width img + x))) (pixels b ! i)
          else pixels b ! i) [0..<length (pixels b)]\<rparr>"

section \<open>The browser\<close>

text \<open>
  What the browser contributes and the source does not contain is a parameter:
  decoding an image source (\<^verbatim>\<open>img.src = ...\<close>; \<open>None\<close> fires \<^verbatim>\<open>onerror\<close>),
  \<^verbatim>\<open>canvas.toDataURL\<close>, and the coverage (0 to 255) that the rasteriser gives each
  pixel of a \<open>w \<times> h\<close> canvas for the path \<^verbatim>\<open>arc(x, y, r, 0, 2 * Math.PI)\<close>,
  and the message of the exception that \<^verbatim>\<open>getImageData\<close> throws on a canvas of
  width or height 0.
  An image source is the state variable it was read from, so it may be \<^verbatim>\<open>null\<close>.
\<close>

type_synonym point = "real \<times> real"

record browser =
  decode :: "string option \<Rightarrow> bitmap option"
  toDataURL :: "bitmap \<Rightarrow> string"
  arc :: "point \<Rightarrow> int \<Rightarrow> nat \<Rightarrow> nat \<Rightarrow> nat \<Rightarrow> nat"
  index_size_error :: string

text \<open>\<^verbatim>\<open>maskCtx.fillStyle = 'white'; maskCtx.arc(...); maskCtx.fill()\<close>.\<close>

definition fillArc :: "browser \<Rightarrow> point \<Rightarrow> int \<Rightarrow> bitmap \<Rightarrow> bitmap" where
  "fillArc B pos r b =
     b\<lparr>pixels := map (\<lambda>i.
          source_over (white (min 255 (arc B pos r (width b) (height b) i))) (pixels b ! i))
        [0..<length (pixels b)]\<rparr>"

section \<open>The component state\<close>

text \<open>
  The \<^verbatim>\<open>useState\<close> variables of \<^verbatim>\<open>App\<close> and its two canvas refs
  (\<^verbatim>\<open>canvasRef.current\<close>, \<^verbatim>\<open>maskCanvasRef.current\<close>: \<open>None\<close> while the editor
  area is not rendered).  The state variable \<^verbatim>\<open>image\<close> is \<open>imageSt\<close> here.
  Three more fields hold what is outstanding in the browser: the \<^verbatim>\<open>Image\<close> and
  \<^verbatim>\<open>FileReader\<close> objects whose load has not fired yet, the transform requests that
  have no response yet, and the number of unanswered \<^verbatim>\<open>/health\<close> requests.
  \<open>mounts\<close> counts how often the canvases were mounted, so that a callback that
  captured a drawing context can tell whether its canvas is still the mounted one;
  \<open>globalAlpha\<close> is that property of the visible canvas's context.
\<close>

record file_obj =
  ftype :: string
  fsize :: nat
  content :: "string option"

datatype json = JNull | JString string | JNumber int

record request =
  url :: string
  http_method :: string
  headers :: "(string \<times> string) list"
  body :: "(string \<times> json) list"

record pending =
  sent :: request
  closure_originalImage :: "string option"

datatype target = Live | Captured nat

datatype task =
    ReaderLoad file_obj
  | UploadImg string
  | PreviewImg nat "string option"
  | ResultImg "string option" "string option"
  | RedrawImg target "string option"

record client =
  imageSt :: "string option"
  originalImage :: "string option"
  isDrawing :: bool
  brushSize :: int
  mode :: string
  isProcessing :: bool
  error :: "string option"
  backendStatus :: string
  canvas :: "bitmap option"
  maskCanvas :: "bitmap option"
  mounts :: nat
  loads :: "task list"
  inflight :: "pending list"
  health :: nat
  globalAlpha :: nat

definition API_URL :: string where
  "API_URL = ''http://localhost:5000/api''"

text \<open>The state of the first render; the mount effect has called
  \<^verbatim>\<open>checkBackendHealth\<close> once.\<close>

definition initial :: client where
  "initial = \<lparr>imageSt = None, originalImage = None, isDrawing = False, brushSize = 20,
     mode = ''blur'', isProcessing = False, error = None, backendStatus = ''checking'',
     canvas = None, maskCanvas = None, mounts = 0, loads = [], inflight = [], health = 1,
     globalAlpha = 255\<rparr>"

text \<open>JavaScript truthiness of a string-or-null: \<^verbatim>\<open>null\<close> and \<^verbatim>\<open>''\<close> are falsy.\<close>

definition truthy :: "string option \<Rightarrow> bool" where
  "truthy v = (case v of None \<Rightarrow> False | Some s \<Rightarrow> s \<noteq> [])"

definition startsWith :: "string \<Rightarrow> string \<Rightarrow> bool" where
  "startsWith s p = (take (length p) s = p)"

fun show_nat :: "nat \<Rightarrow> string" where
  "show_nat n =
     (if n < 10 then [char_of (48 + n)]
      else show_nat (n div 10) @ [char_of (48 + n mod 10)])"

subsection \<open>checkBackendHealth\<close>

datatype health_result = HealthOk | HealthNotOk | HealthRejected

definition checkBackendHealth :: "client \<Rightarrow> client" where
  "checkBackendHealth c = c\<lparr>health := health c + 1\<rparr>"

definition checkBackendHealth_done :: "health_result \<Rightarrow> client \<Rightarrow> client" where
  "checkBackendHealth_done r c =
     (case r of
        HealthOk \<Rightarrow> c\<lparr>backendStatus := ''online'', error := None\<rparr>
      | HealthNotOk \<Rightarrow>
          c\<lparr>backendStatus := ''offline'', error := Some ''Backend is not responding correctly''\<rparr>
      | HealthRejected \<Rightarrow>
          c\<lparr>backendStatus := ''offline'',
            error := Some ''Cannot connect to backend. Make sure it's running on port 5000''\<rparr>)"

subsection \<open>handleImageUpload\<close>

text \<open>The argument is \<^verbatim>\<open>e.target.files?.[0]\<close>.  The handler itself only validates
  and starts the \<^verbatim>\<open>FileReader\<close>; the two callbacks are the tasks \<open>ReaderLoad\<close> and
  \<open>UploadImg\<close> of \<open>fire\<close> below.\<close>

definition handleImageUpload :: "file_obj option \<Rightarrow> client \<Rightarrow> client" where
  "handleImageUpload fo c =
     (case fo of
        None \<Rightarrow> c
      | Some f \<Rightarrow>
          if \<not> startsWith (ftype f) ''image/''
          then c\<lparr>error := Some ''Please upload a valid image file''\<rparr>
          else if 10 * 1024 * 1024 < fsize f
          then c\<lparr>error := Some ''Image size should be less than 10MB''\<rparr>
          else c\<lparr>loads := loads c @ [ReaderLoad f]\<rparr>)"

subsection \<open>draw, startDrawing, stopDrawing\<close>

text \<open>
  The event carries the position that \<^verbatim>\<open>getMousePos\<close> computes from it and whether
  its type is \<^verbatim>\<open>mousedown\<close>.  The preview is drawn by the \<^verbatim>\<open>onload\<close> callback of a
  fresh \<^verbatim>\<open>Image\<close>, the task \<open>PreviewImg\<close>, which captured both drawing contexts and
  \<^verbatim>\<open>originalImage\<close>.
\<close>

definition draw :: "browser \<Rightarrow> bool \<Rightarrow> point \<Rightarrow> client \<Rightarrow> client" where
  "draw B mousedown pos c =
     (if \<not> isDrawing c \<and> \<not> mousedown then c
      else case (maskCanvas c, canvas c) of
        (Some mk, Some cv) \<Rightarrow>
          c\<lparr>maskCanvas := Some (fillArc B pos (brushSize c) mk),
            loads := loads c @ [PreviewImg (mounts c) (originalImage c)]\<rparr>
      | _ \<Rightarrow> c)"

definition startDrawing :: "browser \<Rightarrow> point \<Rightarrow> client \<Rightarrow> client" where
  "startDrawing B pos c = (draw B True pos c)\<lparr>isDrawing := True\<rparr>"

definition stopDrawing :: "client \<Rightarrow> client" where
  "stopDrawing c = c\<lparr>isDrawing := False\<rparr>"

text \<open>The loop of the preview callback over the mask's byte array, \<open>i\<close> stepping by 4.
  With a mask of width 0 the coordinates are NaN and \<^verbatim>\<open>fillRect\<close> draws nothing.\<close>

function overlay_loop :: "nat list \<Rightarrow> nat \<Rightarrow> nat \<Rightarrow> bitmap \<Rightarrow> bitmap" where
  "overlay_loop d mw i b =
     (if i < length d
      then overlay_loop d mw (i + 4)
             (if 0 < d ! i
              then (if mw = 0 then b
                    else fillRect1 red_overlay ((i div 4) mod mw) ((i div 4) div mw) b)
              else b)
      else b)"
  by pat_completeness auto
termination
  by (relation "measure (\<lambda>(d, mw, i, b). length d - i)") auto

text \<open>The callback: draw the image, set \<^verbatim>\<open>globalAlpha = 0.4\<close>, read the mask, run
  the loop, set \<^verbatim>\<open>globalAlpha = 1.0\<close>.  On a mask of width or height 0
  \<^verbatim>\<open>getImageData\<close> throws and the callback ends there.  The result is the canvas
  and the \<^verbatim>\<open>globalAlpha\<close> it leaves.\<close>

definition preview_onload :: "nat \<Rightarrow> bitmap \<Rightarrow> bitmap \<Rightarrow> bitmap \<Rightarrow> bitmap \<times> nat" where
  "preview_onload ga img mk cv =
     (let b = drawImage ga img cv in
      if width mk = 0 \<or> height mk = 0 then (b, 102)
      else (overlay_loop (getImageData mk) (width mk) 0 b, 255))"

subsection \<open>clearMask, resetImage\<close>

text \<open>
  \<^verbatim>\<open>clearMask\<close> reads \<^verbatim>\<open>originalImage\<close> from the render that created the closure.
  Its first argument is that captured value: the current state when the button calls
  it, the value from before \<^verbatim>\<open>setOriginalImage\<close> when \<^verbatim>\<open>resetImage\<close> or the
  callback of \<^verbatim>\<open>applyProcessing\<close> calls it.
\<close>

definition clearMask :: "string option \<Rightarrow> client \<Rightarrow> client" where
  "clearMask captured c =
     (case (maskCanvas c, canvas c) of
        (Some mk, Some cv) \<Rightarrow>
          c\<lparr>maskCanvas := Some (fillRect_all black mk),
            loads := loads c @ [RedrawImg (Captured (mounts c)) captured]\<rparr>
      | _ \<Rightarrow> c)"

definition resetImage :: "client \<Rightarrow> client" where
  "resetImage c =
     (if \<not> truthy (imageSt c) then c
      else clearMask (originalImage c)
             (c\<lparr>originalImage := imageSt c,
                loads := loads c @ [RedrawImg Live (imageSt c)]\<rparr>))"

definition newImage :: "client \<Rightarrow> client" where
  "newImage c = c\<lparr>imageSt := None, originalImage := None, error := None\<rparr>"

definition downloadImage :: "browser \<Rightarrow> client \<Rightarrow> string option" where
  "downloadImage B c = map_option (toDataURL B) (canvas c)"

subsection \<open>applyProcessing\<close>

text \<open>
  The function up to its \<^verbatim>\<open>await fetch(...)\<close>: the new state and the request it
  sends, if it sends one.  \<^verbatim>\<open>finally\<close> runs on the early return and after the
  \<^verbatim>\<open>catch\<close>, so \<^verbatim>\<open>isProcessing\<close> ends \<^verbatim>\<open>false\<close> in both.  A request is
  the URL, the method, the headers and the fields of the JSON body in their order;
  the fetch option \<^verbatim>\<open>mode: 'cors'\<close>, which is the default of \<^verbatim>\<open>fetch\<close>, is not
  recorded.
\<close>

definition transform_request :: "browser \<Rightarrow> client \<Rightarrow> bitmap \<Rightarrow> request" where
  "transform_request B c mk =
     \<lparr>url = API_URL @ (if mode c = ''blur'' then ''/blur'' else ''/inpaint''),
      http_method = ''POST'',
      headers = [(''Content-Type'', ''application/json'')],
      body = [(''image'', case originalImage c of None \<Rightarrow> JNull | Some u \<Rightarrow> JString u),
              (''mask'', JString (toDataURL B mk)),
              (''kernel_size'', JNumber 35)]\<rparr>"

definition caught :: "string \<Rightarrow> client \<Rightarrow> client" where
  "caught message c =
     c\<lparr>error := Some (''Failed to process: '' @ message), backendStatus := ''offline'',
       isProcessing := False\<rparr>"

definition applyProcessing :: "browser \<Rightarrow> client \<Rightarrow> client \<times> request option" where
  "applyProcessing B c =
     (if backendStatus c \<noteq> ''online''
      then (c\<lparr>error := Some ''Backend is offline. Please start the backend server first.''\<rparr>,
            None)
      else
        let c1 = c\<lparr>isProcessing := True, error := None\<rparr> in
        case maskCanvas c1 of
          None \<Rightarrow> (caught ''Mask canvas not found'' c1, None)
        | Some mk \<Rightarrow>
            if width mk = 0 \<or> height mk = 0 then (caught (index_size_error B) c1, None)
            else
              let hasContent = list_ex (\<lambda>pixel. 0 < pixel) (getImageData mk) in
              if \<not> hasContent
              then (c1\<lparr>error := Some ''Please draw on the image first to select an area'',
                       isProcessing := False\<rparr>, None)
              else (c1, Some (transform_request B c mk)))"

text \<open>The rest of the function, once the fetch has settled: rejected, answered with a
  status that is not ok, answered with a body that is not JSON, or answered with
  the JSON object \<open>data\<close>.  The captured \<^verbatim>\<open>originalImage\<close> is the one of the render in
  which Apply was clicked.\<close>

record api_data =
  success :: bool
  result :: "string option"
  api_error :: "string option"

datatype fetch_result = Rejected string | NotOk nat | BadJson string | Json api_data

definition applyProcessing_resume :: "string option \<Rightarrow> fetch_result \<Rightarrow> client \<Rightarrow> client" where
  "applyProcessing_resume captured r c =
     (case r of
        Rejected m \<Rightarrow> caught m c
      | NotOk status \<Rightarrow> caught (''Server error: '' @ show_nat status) c
      | BadJson m \<Rightarrow> caught m c
      | Json d \<Rightarrow>
          if success d
          then c\<lparr>loads := loads c @ [ResultImg (result d) captured], isProcessing := False\<rparr>
          else c\<lparr>error := Some (case api_error d of
                                   None \<Rightarrow> ''Processing failed''
                                 | Some e \<Rightarrow> if e = [] then ''Processing failed'' else e),
                 isProcessing := False\<rparr>)"

subsection \<open>The load callbacks\<close>

text \<open>
  What happens when an outstanding \<^verbatim>\<open>FileReader\<close> or \<^verbatim>\<open>Image\<close> settles:
  \<^item> \<open>ReaderLoad\<close>: \<^verbatim>\<open>reader.onload\<close> / \<^verbatim>\<open>reader.onerror\<close> of \<^verbatim>\<open>handleImageUpload\<close>;
  \<^item> \<open>UploadImg\<close>: \<^verbatim>\<open>img.onload\<close> / \<^verbatim>\<open>img.onerror\<close> of \<^verbatim>\<open>handleImageUpload\<close>;
  \<^item> \<open>PreviewImg\<close>: \<^verbatim>\<open>img.onload\<close> of \<^verbatim>\<open>draw\<close>, on the contexts it captured;
  \<^item> \<open>ResultImg\<close>: \<^verbatim>\<open>img.onload\<close> / \<^verbatim>\<open>img.onerror\<close> of \<^verbatim>\<open>applyProcessing\<close>, which
    calls the \<^verbatim>\<open>clearMask\<close> of its own render;
  \<^item> \<open>RedrawImg\<close>: \<^verbatim>\<open>img.onload\<close> of \<^verbatim>\<open>clearMask\<close> (captured context) and of
    \<^verbatim>\<open>resetImage\<close> (reads \<^verbatim>\<open>canvasRef.current\<close>).
  A callback that draws on a captured context of a canvas that is no longer mounted
  changes nothing that the component can see.
\<close>

fun fire :: "browser \<Rightarrow> task \<Rightarrow> client \<Rightarrow> client" where
  "fire B (ReaderLoad f) c =
     (case content f of
        None \<Rightarrow> c\<lparr>error := Some ''Failed to read file''\<rparr>
      | Some u \<Rightarrow> c\<lparr>loads := loads c @ [UploadImg u]\<rparr>)"
| "fire B (UploadImg u) c =
     (case decode B (Some u) of
        None \<Rightarrow> c\<lparr>error := Some ''Failed to load image''\<rparr>
      | Some img \<Rightarrow>
          (case (canvas c, maskCanvas c) of
             (Some cv, Some mk) \<Rightarrow>
               c\<lparr>canvas := Some (drawImage 255 img (blank (width img) (height img))),
                 maskCanvas := Some (fillRect_all black (blank (width img) (height img))),
                 globalAlpha := 255,
                 imageSt := Some u, originalImage := Some u, error := None\<rparr>
           | _ \<Rightarrow> c))"
| "fire B (PreviewImg g src) c =
     (case decode B src of
        None \<Rightarrow> c
      | Some img \<Rightarrow>
          (case (canvas c, maskCanvas c) of
             (Some cv, Some mk) \<Rightarrow>
               if g = mounts c
               then c\<lparr>canvas := Some (fst (preview_onload (globalAlpha c) img mk cv)),
                      globalAlpha := snd (preview_onload (globalAlpha c) img mk cv)\<rparr>
               else c
           | _ \<Rightarrow> c))"
| "fire B (ResultImg src captured) c =
     (case decode B src of
        None \<Rightarrow> c\<lparr>error := Some ''Failed to load processed image''\<rparr>
      | Some img \<Rightarrow>
          (case canvas c of
             None \<Rightarrow> c
           | Some cv \<Rightarrow>
               clearMask captured
                 (c\<lparr>canvas := Some (drawImage (globalAlpha c) img cv),
                    originalImage := src\<rparr>)))"
| "fire B (RedrawImg tgt src) c =
     (case decode B src of
        None \<Rightarrow> c
      | Some img \<Rightarrow>
          (case canvas c of
             None \<Rightarrow> c
           | Some cv \<Rightarrow>
               if tgt = Live \<or> tgt = Captured (mounts c)
               then c\<lparr>canvas := Some (drawImage (globalAlpha c) img cv)\<rparr>
               else c))"

subsection \<open>Rendering and the event loop\<close>

text \<open>
  The JSX renders the upload area while \<^verbatim>\<open>image\<close> is falsy and the editor area,
  with both canvases and all buttons but Retry and the error's dismiss button,
  otherwise.  After every handler React renders again: canvases that are no longer
  rendered leave the refs \<^verbatim>\<open>null\<close>, canvases rendered for the first time are new
  elements of the default size 300 by 150.
\<close>

definition editor :: "client \<Rightarrow> bool" where
  "editor c = truthy (imageSt c)"

definition apply_disabled :: "client \<Rightarrow> bool" where
  "apply_disabled c = (isProcessing c \<or> backendStatus c \<noteq> ''online'')"

definition commit :: "client \<Rightarrow> client" where
  "commit c =
     (if editor c
      then (if canvas c = None \<or> maskCanvas c = None
            then c\<lparr>canvas := Some (blank 300 150), maskCanvas := Some (blank 300 150),
                   mounts := mounts c + 1, globalAlpha := 255\<rparr>
            else c)
      else c\<lparr>canvas := None, maskCanvas := None\<rparr>)"

datatype event =
    Upload "file_obj option"
  | MouseDown point | MouseMove point | MouseUp | MouseLeave
  | ClickBlur | ClickRemove | ClickMinus | ClickPlus
  | ClickApply | ClickClearMask | ClickReset | ClickDownload | ClickNewImage
  | ClickRetry | ClickDismiss
  | HealthDone health_result
  | FetchDone nat fetch_result
  | LoadDone nat

definition remove_nth :: "nat \<Rightarrow> 'a list \<Rightarrow> 'a list" where
  "remove_nth n xs = take n xs @ drop (Suc n) xs"

definition submit :: "client \<Rightarrow> client \<times> request option \<Rightarrow> client" where
  "submit c r =
     (case snd r of
        None \<Rightarrow> fst r
      | Some rq \<Rightarrow>
          (fst r)\<lparr>inflight := inflight (fst r) @
             [\<lparr>sent = rq, closure_originalImage = originalImage c\<rparr>]\<rparr>)"

text \<open>An event that the rendered page cannot deliver (its element is not rendered or
  is disabled, or nothing is outstanding) has no successor.\<close>

fun handle :: "browser \<Rightarrow> event \<Rightarrow> client \<Rightarrow> client option" where
  "handle B (Upload fo) c = (if editor c then None else Some (handleImageUpload fo c))"
| "handle B (MouseDown pos) c = (if editor c then Some (startDrawing B pos c) else None)"
| "handle B (MouseMove pos) c = (if editor c then Some (draw B False pos c) else None)"
| "handle B MouseUp c = (if editor c then Some (stopDrawing c) else None)"
| "handle B MouseLeave c = (if editor c then Some (stopDrawing c) else None)"
| "handle B ClickBlur c = (if editor c then Some (c\<lparr>mode := ''blur''\<rparr>) else None)"
| "handle B ClickRemove c = (if editor c then Some (c\<lparr>mode := ''inpaint''\<rparr>) else None)"
| "handle B ClickMinus c =
     (if editor c then Some (c\<lparr>brushSize := max 5 (brushSize c - 5)\<rparr>) else None)"
| "handle B ClickPlus c =
     (if editor c then Some (c\<lparr>brushSize := min 100 (brushSize c + 5)\<rparr>) else None)"
| "handle B ClickApply c =
     (if editor c \<and> \<not> apply_disabled c then Some (submit c (applyProcessing B c)) else None)"
| "handle B ClickClearMask c =
     (if editor c then Some (clearMask (originalImage c) c) else None)"
| "handle B ClickReset c = (if editor c then Some (resetImage c) else None)"
| "handle B ClickDownload c = (if editor c then Some c else None)"
| "handle B ClickNewImage c = (if editor c then Some (newImage c) else None)"
| "handle B ClickRetry c =
     (if backendStatus c = ''offline'' then Some (checkBackendHealth c) else None)"
| "handle B ClickDismiss c =
     (if truthy (error c) then Some (c\<lparr>error := None\<rparr>) else None)"
| "handle B (HealthDone r) c =
     (if 0 < health c then Some (checkBackendHealth_done r (c\<lparr>health := health c - 1\<rparr>))
      else None)"
| "handle B (FetchDone n r) c =
     (if n < length (inflight c)
      then Some (applyProcessing_resume (closure_originalImage (inflight c ! n)) r
                   (c\<lparr>inflight := remove_nth n (inflight c)\<rparr>))
      else None)"
| "handle B (LoadDone n) c =
     (if n < length (loads c)
      then Some (fire B (loads c ! n) (c\<lparr>loads := remove_nth n (loads c)\<rparr>))
      else None)"

definition step :: "browser \<Rightarrow> event \<Rightarrow> client \<Rightarrow> client option" where
  "step B e c = map_option commit (handle B e c)"

fun run :: "browser \<Rightarrow> event list \<Rightarrow> client \<Rightarrow> client option" where
  "run B [] c = Some c"
| "run B (e # es) c = (case step B e c of None \<Rightarrow> None | Some c' \<Rightarrow> run B es c')"

section \<open>The earlier component\<close>

text \<open>
  \<^verbatim>\<open>src/unnamed/part_001\<close> is an earlier version of the same component,
  \<^verbatim>\<open>BlurTool\<close>.  Its \<^verbatim>\<open>applyProcessing\<close> has no health gate and no check of the
  mask; a missing canvas is a \<^verbatim>\<open>TypeError\<close> that its \<^verbatim>\<open>catch\<close> reports with
  \<^verbatim>\<open>alert\<close>.
\<close>

definition BlurTool_applyProcessing :: "browser \<Rightarrow> client \<Rightarrow> client \<times> request option" where
  "BlurTool_applyProcessing B c =
     (case (canvas c, maskCanvas c) of
        (Some cv, Some mk) \<Rightarrow>
          (c\<lparr>isProcessing := True\<rparr>,
           Some \<lparr>url = API_URL @ (if mode c = ''blur'' then ''/blur'' else ''/inpaint''),
                 http_method = ''POST'',
                 headers = [(''Content-Type'', ''application/json'')],
                 body = [(''image'', case originalImage c of None \<Rightarrow> JNull | Some u \<Rightarrow> JString u),
                         (''mask'', JString (toDataURL B mk)),
                         (''kernel_size'', JNumber 35)]\<rparr>)
      | _ \<Rightarrow> (c\<lparr>isProcessing := False\<rparr>, None))"

section \<open>Vocabulary of the specification\<close>

text \<open>
  The selection mask has one effective channel.  The source reads it as the first
  byte of each pixel (\<^verbatim>\<open>imageData.data[i]\<close> with \<open>i\<close> a multiple of 4), the red
  channel: a pixel is selected when that byte is above 0, and the mask is all-zero
  when no pixel is selected.  The working image is \<^verbatim>\<open>originalImage\<close>, the image
  that is sent to the engine and drawn under the preview; \<^verbatim>\<open>image\<close> keeps the
  image as it was loaded.
\<close>

definition selected :: "rgba \<Rightarrow> bool" where
  "selected p = (0 < red p)"

definition all_zero :: "bitmap \<Rightarrow> bool" where
  "all_zero mk = list_all (\<lambda>p. \<not> selected p) (pixels mk)"

text \<open>The preview that the specification describes: the working image with the
  highlight over exactly the selected pixels.\<close>

definition highlighted :: "bitmap \<Rightarrow> bitmap \<Rightarrow> bitmap" where
  "highlighted img mk =
     img\<lparr>pixels := map (\<lambda>(p, m). if selected m then source_over red_overlay p else p)
                       (zip (pixels img) (pixels mk))\<rparr>"

definition brush_ok :: "client \<Rightarrow> bool" where
  "brush_ok c = (5 \<le> brushSize c \<and> brushSize c \<le> 100)"

section \<open>Sample inputs\<close>

text \<open>A browser that knows three one-pixel images, \<open>A\<close> and \<open>B\<close> opaque and \<open>T\<close>
  fully transparent, and whose brush always covers the whole canvas.\<close>

definition example_browser :: browser where
  "example_browser =
     \<lparr>decode = (\<lambda>s.
        if s = Some ''A'' then Some \<lparr>width = 1, height = 1, pixels = [(10, 20, 30, 255)]\<rparr>
        else if s = Some ''B'' then Some \<lparr>width = 1, height = 1, pixels = [(200, 100, 50, 255)]\<rparr>
        else if s = Some ''T'' then Some \<lparr>width = 1, height = 1, pixels = [(0, 0, 0, 0)]\<rparr>
        else None),
      toDataURL = (\<lambda>b. ''data:image/png;base64,''),
      arc = (\<lambda>pos r w h i. 255),
      index_size_error = ''The source width is 0.''\<rparr>"

text \<open>A state in which both canvases are mounted and the backend is online, as the
  upload callback needs it; then the state that the callback leaves there for image
  \<open>A\<close>, and for image \<open>T\<close>.\<close>

definition example_mounted :: client where
  "example_mounted = initial\<lparr>backendStatus := ''online'', health := 0,
     canvas := Some (blank 300 150), maskCanvas := Some (blank 300 150), mounts := 1\<rparr>"

definition example_loaded :: client where
  "example_loaded = fire example_browser (UploadImg ''A'') example_mounted"

definition example_transparent :: client where
  "example_transparent = fire example_browser (UploadImg ''T'') example_mounted"

text \<open>The same state after one brush stroke and its preview; the request that Apply
  sends from there, and the state after that click.\<close>

definition example_painted :: client where
  "example_painted = \<lparr>imageSt = Some ''A'', originalImage = Some ''A'', isDrawing = False,
     brushSize = 20, mode = ''blur'', isProcessing = False, error = None,
     backendStatus = ''online'',
     canvas = Some \<lparr>width = 1, height = 1, pixels = [(108, 12, 18, 255)]\<rparr>,
     maskCanvas = Some \<lparr>width = 1, height = 1, pixels = [(255, 255, 255, 255)]\<rparr>,
     mounts = 1, loads = [], inflight = [], health = 0, globalAlpha = 255\<rparr>"

definition example_request :: request where
  "example_request =
     \<lparr>url = ''http://localhost:5000/api/blur'', http_method = ''POST'',
      headers = [(''Content-Type'', ''application/json'')],
      body = [(''image'', JString ''A''), (''mask'', JString ''data:image/png;base64,''),
              (''kernel_size'', JNumber 35)]\<rparr>"

definition example_submitted :: client where
  "example_submitted =
     example_painted\<lparr>isProcessing := True,
       inflight := [\<lparr>sent = example_request, closure_originalImage = Some ''A''\<rparr>]\<rparr>"

text \<open>Two answers of the engine: success with image \<open>B\<close>, and a failure.\<close>

definition example_ok :: api_data where
  "example_ok = \<lparr>success = True, result = Some ''B'', api_error = None\<rparr>"

definition example_failed :: api_data where
  "example_failed = \<lparr>success = False, result = None, api_error = Some ''No image provided''\<rparr>"

text \<open>The state after the successful answer and both of its image loads, and the state
  after a click on Reset there and both of its image loads.\<close>

definition example_edited :: client where
  "example_edited =
     example_painted\<lparr>originalImage := Some ''B'',
       canvas := Some \<lparr>width = 1, height = 1, pixels = [(10, 20, 30, 255)]\<rparr>,
       maskCanvas := Some \<lparr>width = 1, height = 1, pixels = [(0, 0, 0, 255)]\<rparr>\<rparr>"

definition example_after_reset :: client where
  "example_after_reset =
     example_painted\<lparr>originalImage := Some ''A'',
       canvas := Some \<lparr>width = 1, height = 1, pixels = [(200, 100, 50, 255)]\<rparr>,
       maskCanvas := Some \<lparr>width = 1, height = 1, pixels = [(0, 0, 0, 255)]\<rparr>\<rparr>"

text \<open>The transparent image after one stroke and after two strokes on its pixel.\<close>

definition example_one_stroke :: client where
  "example_one_stroke =
     example_transparent\<lparr>isDrawing := True,
       canvas := Some \<lparr>width = 1, height = 1, pixels = [(255, 0, 0, 102)]\<rparr>,
       maskCanvas := Some \<lparr>width = 1, height = 1, pixels = [(255, 255, 255, 255)]\<rparr>\<rparr>"

definition example_two_strokes :: client where
  "example_two_strokes =
     example_transparent\<lparr>isDrawing := True,
       canvas := Some \<lparr>width = 1, height = 1, pixels = [(255, 0, 0, 163)]\<rparr>,
       maskCanvas := Some \<lparr>width = 1, height = 1, pixels = [(255, 255, 255, 255)]\<rparr>\<rparr>"

text \<open>A file that holds image \<open>A\<close>, and a file that is not an image and cannot be
  read.\<close>

definition example_png_file :: file_obj where
  "example_png_file = \<lparr>ftype = ''image/png'', fsize = 12, content = Some ''A''\<rparr>"

definition example_text_file :: file_obj where
  "example_text_file = \<lparr>ftype = ''text/plain'', fsize = 12, content = None\<rparr>"

text \<open>The states in which no image is loaded and no canvas is mounted, and all that is
  outstanding belongs to uploads.\<close>

fun upload_task :: "task \<Rightarrow> bool" where
  "upload_task (ReaderLoad f) = True"
| "upload_task (UploadImg u) = True"
| "upload_task t = False"

definition unloaded :: "client \<Rightarrow> bool" where
  "unloaded c = (imageSt c = None \<and> canvas c = None \<and> maskCanvas c = None
                 \<and> inflight c = [] \<and> list_all upload_task (loads c))"

text \<open>The invariant behind the single request in flight.\<close>

definition single_flight :: "client \<Rightarrow> bool" where
  "single_flight c = (inflight c = [] \<or> (length (inflight c) = 1 \<and> isProcessing c))"

section \<open>The region transform engine\<close>




text \<open>Modelled from the spec: the weights that the engine's kernels may have.  A blur
  kernel has positive taps that do not grow with the distance and that sum to 1;
  the box kernel and the Gaussian kernel are the two that the specification names.\<close>

definition kernel :: "(nat \<Rightarrow> real) \<Rightarrow> nat \<Rightarrow> bool" where
  "kernel w r = ((\<forall>d\<le>r. 0 < w d) \<and> (\<forall>m n. m \<le> n \<and> n \<le> r \<longrightarrow> w n \<le> w m)
                 \<and> (\<Sum>d = - int r..int r. w (nat \<bar>d\<bar>)) = 1)"


text \<open>Modelled from the spec: the engine's Gaussian kernel, truncated at radius \<open>r\<close>
  and normalised.\<close>

definition gaussian_weights :: "real \<Rightarrow> nat \<Rightarrow> nat \<Rightarrow> real" where
  "gaussian_weights sigma r d =
     exp (- (real d)\<^sup>2 / (2 * sigma\<^sup>2))
     / (\<Sum>t = - int r..int r. exp (- (real (nat \<bar>t\<bar>))\<^sup>2 / (2 * sigma\<^sup>2)))"











section \<open>Compositing\<close>

lemmas compositing_defs = source_over_def over_premultiplied_def premultiply_def
  unpremultiply_def div255_def

text \<open>Compositing bytes gives bytes: premultiplying a byte pixel gives a premultiplied
  pixel, compositing premultiplied pixels gives one, and dividing the coverage out
  of one gives a byte pixel.\<close>

lemma div255_mono: "x \<le> y \<Longrightarrow> div255 x \<le> div255 y"
  by (simp add: div255_def div_le_mono)

lemma div255_byte: "div255 (255 * a) = a" "div255 (a * 255) = a"
  by (simp_all add: div255_def)

lemma div255_le: "r \<le> 255 \<Longrightarrow> div255 (r * a) \<le> a"
  using div255_mono[of "r * a" "255 * a"] by (simp add: div255_byte)

lemma premultiply_premultiplied: "byte_pixel p \<Longrightarrow> premultiplied (premultiply p)"
  by (cases p) (simp add: byte_pixel_def premultiplied_def premultiply_def div255_le)

lemma over_channel:
  assumes "sc \<le> sa" "dc \<le> da"
  shows "sc + div255 (dc * (255 - sa)) \<le> sa + div255 (da * (255 - sa))"
  using assms by (intro add_mono div255_mono mult_le_mono1)

lemma over_alpha:
  assumes "sa \<le> 255" "da \<le> 255"
  shows "sa + div255 (da * (255 - sa)) \<le> 255"
proof -
  have "div255 (da * (255 - sa)) \<le> 255 - sa" using assms(2) by (rule div255_le)
  with assms(1) show ?thesis by simp
qed

lemma over_premultiplied_premultiplied:
  "premultiplied s \<Longrightarrow> premultiplied d \<Longrightarrow> premultiplied (over_premultiplied s d)"
  by (cases s; cases d) (simp add: premultiplied_def over_premultiplied_def over_channel over_alpha)

lemma unpremultiply_channel:
  assumes "c \<le> a" "0 < a"
  shows "(c * 255 + a div 2) div a \<le> (255::nat)"
proof -
  have "c * 255 + a div 2 < 256 * a" using assms by linarith
  then have "(c * 255 + a div 2) div a < 256" by (rule less_mult_imp_div_less)
  then show ?thesis by simp
qed

lemma unpremultiply_byte: "premultiplied p \<Longrightarrow> byte_pixel (unpremultiply p)"
  by (cases p) (simp add: premultiplied_def unpremultiply_def byte_pixel_def unpremultiply_channel)

lemma source_over_byte: "byte_pixel s \<Longrightarrow> byte_pixel d \<Longrightarrow> byte_pixel (source_over s d)"
  by (simp add: source_over_def unpremultiply_byte over_premultiplied_premultiplied
      premultiply_premultiplied)

text \<open>Nothing is lost by keeping the pixels as \<^verbatim>\<open>getImageData\<close> reads them: premultiplying
  what was read from a premultiplied pixel gives that pixel back.\<close>

lemma roundtrip_channel:
  assumes "c \<le> a" "0 < a" "a \<le> 255"
  shows "div255 ((c * 255 + a div 2) div a * a) = c"
proof -
  define u where "u = (c * 255 + a div 2) div a"
  have up: "u * a \<le> c * 255 + a div 2" unfolding u_def by simp
  have "c * 255 + a div 2 < (u + 1) * a"
    unfolding u_def using assms(2)
    by (metis Suc_eq_plus1 dividend_less_div_times mult.commute add.commute mult_Suc)
  then have lo: "c * 255 + a div 2 < u * a + a" by (simp add: algebra_simps)
  have "255 * c \<le> u * a + 127" using lo assms(3) by linarith
  moreover have "u * a + 127 < 255 * c + 255" using up assms(3) by linarith
  ultimately have "(u * a + 127) div 255 = c"
    by (metis div_nat_eqI mult.commute add.commute mult_Suc)
  then show ?thesis by (simp add: div255_def u_def)
qed

lemma premultiply_unpremultiply: "premultiplied p \<Longrightarrow> premultiply (unpremultiply p) = p"
  by (cases p) (auto simp: premultiplied_def premultiply_def unpremultiply_def roundtrip_channel
      div255_def[of 0])

text \<open>The highlight of the preview, red under \<^verbatim>\<open>globalAlpha = 0.4\<close>, composited once,
  twice and three times over a transparent pixel, and once over an opaque one.\<close>

lemma red_overlay_values:
  "source_over red_overlay (0, 0, 0, 0) = (255, 0, 0, 102)"
  "source_over red_overlay (255, 0, 0, 102) = (255, 0, 0, 163)"
  "source_over red_overlay (255, 0, 0, 163) = (255, 0, 0, 200)"
  "source_over red_overlay (10, 20, 30, 255) = (108, 12, 18, 255)"
  by (simp_all add: compositing_defs red_overlay_def)

section \<open>The sample states, evaluated\<close>


lemma example_loaded_eq:
  "example_loaded = \<lparr>imageSt = Some ''A'', originalImage = Some ''A'', isDrawing = False,
     brushSize = 20, mode = ''blur'', isProcessing = False, error = None,
     backendStatus = ''online'',
     canvas = Some \<lparr>width = 1, height = 1, pixels = [(10, 20, 30, 255)]\<rparr>,
     maskCanvas = Some \<lparr>width = 1, height = 1, pixels = [(0, 0, 0, 255)]\<rparr>,
     mounts = 1, loads = [], inflight = [], health = 0, globalAlpha = 255\<rparr>"
  apply (simp add: example_loaded_def example_mounted_def initial_def example_browser_def)
  apply (simp add: blank_def drawImage_def fillRect_all_def compositing_defs scale_alpha_def
      black_def)
  done

lemma example_transparent_eq:
  "example_transparent = \<lparr>imageSt = Some ''T'', originalImage = Some ''T'', isDrawing = False,
     brushSize = 20, mode = ''blur'', isProcessing = False, error = None,
     backendStatus = ''online'',
     canvas = Some \<lparr>width = 1, height = 1, pixels = [(0, 0, 0, 0)]\<rparr>,
     maskCanvas = Some \<lparr>width = 1, height = 1, pixels = [(0, 0, 0, 255)]\<rparr>,
     mounts = 1, loads = [], inflight = [], health = 0, globalAlpha = 255\<rparr>"
  apply (simp add: example_transparent_def example_mounted_def initial_def example_browser_def)
  apply (simp add: blank_def drawImage_def fillRect_all_def compositing_defs scale_alpha_def
      black_def)
  done

lemmas eval_defs = step_def editor_def truthy_def commit_def apply_disabled_def remove_nth_def
  startDrawing_def draw_def stopDrawing_def fillArc_def white_def compositing_defs
  preview_onload_def drawImage_def scale_alpha_def getImageData_def fillRect1_def
  red_overlay_def example_browser_def clearMask_def resetImage_def fillRect_all_def black_def
  applyProcessing_def submit_def transform_request_def API_URL_def applyProcessing_resume_def

lemma example_paint:
  "run example_browser [MouseDown (0, 0), LoadDone 0, MouseUp] example_loaded
     = Some example_painted"
  by (simp add: example_loaded_eq example_painted_def eval_defs)

lemma example_apply:
  "applyProcessing example_browser example_painted =
     (example_painted\<lparr>isProcessing := True\<rparr>, Some example_request)"
  by (simp add: example_painted_def applyProcessing_def getImageData_def transform_request_def
      API_URL_def example_browser_def example_request_def)

lemma example_BlurTool_apply:
  "BlurTool_applyProcessing example_browser example_painted =
     (example_painted\<lparr>isProcessing := True\<rparr>, Some example_request)"
  by (simp add: example_painted_def BlurTool_applyProcessing_def API_URL_def example_browser_def
      example_request_def)

lemma example_click_apply:
  "run example_browser [ClickApply] example_painted = Some example_submitted"
  by (simp add: step_def example_apply submit_def example_submitted_def)
     (simp add: example_painted_def editor_def truthy_def apply_disabled_def commit_def)

section \<open>What a cleared mask looks like to the content check\<close>

text \<open>\<^verbatim>\<open>fillRect\<close> with black leaves every pixel unselected, and leaves every alpha
  byte at 255, so the byte array of a cleared mask with at least one pixel always
  holds a byte above 0.\<close>

lemma cleared_mask_all_zero: "all_zero (fillRect_all black b)"
  by (auto simp: all_zero_def fillRect_all_def black_def compositing_defs selected_def red_def
      list_all_iff split: prod.splits)

lemma cleared_mask_has_content:
  "pixels b \<noteq> [] \<Longrightarrow> list_ex (\<lambda>pixel. 0 < pixel) (getImageData (fillRect_all black b))"
  by (cases "pixels b")
     (auto simp: getImageData_def fillRect_all_def black_def compositing_defs split: prod.splits)

lemma apply_on_cleared_mask:
  assumes "backendStatus c = ''online''" and "maskCanvas c = Some (fillRect_all black b)"
    and "0 < width b" and "0 < height b" and "pixels b \<noteq> []"
  shows "all_zero (fillRect_all black b)"
    and "applyProcessing B c =
           (c\<lparr>isProcessing := True, error := None\<rparr>,
            Some (transform_request B c (fillRect_all black b)))"
proof -
  show "all_zero (fillRect_all black b)" by (rule cleared_mask_all_zero)
  have "list_ex (\<lambda>pixel. 0 < pixel) (getImageData (fillRect_all black b))"
    using assms(5) by (rule cleared_mask_has_content)
  moreover have "width (fillRect_all black b) = width b" "height (fillRect_all black b) = height b"
    by (simp_all add: fillRect_all_def)
  ultimately show "applyProcessing B c =
           (c\<lparr>isProcessing := True, error := None\<rparr>,
            Some (transform_request B c (fillRect_all black b)))"
    using assms(1-4) by (simp add: applyProcessing_def)
qed

text \<open>
  Claim C1.  For a loaded image whose mask selects no pixel, Apply is to raise
  EmptySelection and send nothing.  The state below is the one the upload callback
  leaves for image \<open>A\<close>, with the backend online and the mask never painted on: the
  mask is all-zero, its byte array is 0, 0, 0, 255, and \<^verbatim>\<open>applyProcessing\<close> sets no
  error and sends the request.
\<close>

theorem apply_on_untouched_mask_sends_request:
  "maskCanvas example_loaded = Some \<lparr>width = 1, height = 1, pixels = [(0, 0, 0, 255)]\<rparr>
   \<and> all_zero \<lparr>width = 1, height = 1, pixels = [(0, 0, 0, 255)]\<rparr>
   \<and> getImageData \<lparr>width = 1, height = 1, pixels = [(0, 0, 0, 255)]\<rparr> = [0, 0, 0, 255]
   \<and> applyProcessing example_browser example_loaded =
       (example_loaded\<lparr>isProcessing := True, error := None\<rparr>,
        Some \<lparr>url = ''http://localhost:5000/api/blur'', http_method = ''POST'',
              headers = [(''Content-Type'', ''application/json'')],
              body = [(''image'', JString ''A''), (''mask'', JString ''data:image/png;base64,''),
                      (''kernel_size'', JNumber 35)]\<rparr>)"
  by (simp add: example_loaded_eq applyProcessing_def getImageData_def transform_request_def
      API_URL_def all_zero_def selected_def red_def example_browser_def)

section \<open>The kernel size\<close>

text \<open>
  Claim C10.  Every transform request that the client sends carries the kernel size
  35, whatever the mode, the mask and the brush size are: in both versions of the
  component the request body is built with the literal \<^verbatim>\<open>kernel_size: 35\<close>.
\<close>

theorem kernel_size_constant:
  "(snd (applyProcessing B c) = Some rq \<longrightarrow> map_of (body rq) ''kernel_size'' = Some (JNumber 35))
   \<and> (snd (BlurTool_applyProcessing B c) = Some rq \<longrightarrow>
        map_of (body rq) ''kernel_size'' = Some (JNumber 35))"
  by (auto simp: applyProcessing_def BlurTool_applyProcessing_def transform_request_def Let_def
      split: if_splits option.splits)

theorem kernel_size_constant_witness:
  "snd (applyProcessing example_browser example_painted) = Some example_request
   \<and> snd (BlurTool_applyProcessing example_browser example_painted) = Some example_request
   \<and> map_of (body example_request) ''kernel_size'' = Some (JNumber 35)"
  using kernel_size_constant [of example_browser example_painted example_request]
  by (simp add: example_apply example_BlurTool_apply)

section \<open>Invariants of the event loop\<close>

lemma clearMask_frame:
  "inflight (clearMask u c) = inflight c" "isProcessing (clearMask u c) = isProcessing c"
  "brushSize (clearMask u c) = brushSize c"
  by (simp_all add: clearMask_def split: option.splits)

lemma fire_frame:
  "inflight (fire B t c) = inflight c" "isProcessing (fire B t c) = isProcessing c"
  "brushSize (fire B t c) = brushSize c"
  by (cases t; simp add: clearMask_frame split: option.splits)+

lemma commit_frame:
  "inflight (commit c) = inflight c" "isProcessing (commit c) = isProcessing c"
  "brushSize (commit c) = brushSize c"
  by (simp_all add: commit_def)

lemma handleImageUpload_frame:
  "inflight (handleImageUpload fo c) = inflight c"
  "isProcessing (handleImageUpload fo c) = isProcessing c"
  "brushSize (handleImageUpload fo c) = brushSize c"
  by (simp_all add: handleImageUpload_def split: option.splits)

lemma draw_frame:
  "inflight (draw B d pos c) = inflight c" "isProcessing (draw B d pos c) = isProcessing c"
  "brushSize (draw B d pos c) = brushSize c"
  by (simp_all add: draw_def split: option.splits)

lemma resetImage_frame:
  "inflight (resetImage c) = inflight c" "isProcessing (resetImage c) = isProcessing c"
  "brushSize (resetImage c) = brushSize c"
  by (simp_all add: resetImage_def clearMask_frame)

lemma health_done_frame:
  "inflight (checkBackendHealth_done r c) = inflight c"
  "isProcessing (checkBackendHealth_done r c) = isProcessing c"
  "brushSize (checkBackendHealth_done r c) = brushSize c"
  by (simp_all add: checkBackendHealth_done_def split: health_result.splits)

lemma resume_frame:
  "inflight (applyProcessing_resume u r c) = inflight c"
  "\<not> isProcessing (applyProcessing_resume u r c)"
  "brushSize (applyProcessing_resume u r c) = brushSize c"
  by (simp_all add: applyProcessing_resume_def caught_def split: fetch_result.splits)

lemma applyProcessing_frame:
  "inflight (fst (applyProcessing B c)) = inflight c"
  "brushSize (fst (applyProcessing B c)) = brushSize c"
  by (simp_all add: applyProcessing_def caught_def Let_def split: option.splits)

lemma applyProcessing_sends:
  "snd (applyProcessing B c) = Some rq \<Longrightarrow> isProcessing (fst (applyProcessing B c))"
  by (auto simp: applyProcessing_def caught_def Let_def split: option.splits if_splits)

lemma submit_brushSize: "brushSize (submit c r) = brushSize (fst r)"
  by (simp add: submit_def split: option.splits)

lemmas frame = clearMask_frame fire_frame handleImageUpload_frame draw_frame resetImage_frame
  health_done_frame resume_frame(1,3) applyProcessing_frame submit_brushSize

subsection \<open>The brush size\<close>

lemma handle_brushSize:
  assumes "handle B e c = Some c'"
  shows "brushSize c' = brushSize c \<or> brushSize c' = max 5 (brushSize c - 5)
         \<or> brushSize c' = min 100 (brushSize c + 5)"
  using assms
  by (cases e) (auto simp: frame startDrawing_def stopDrawing_def newImage_def
      checkBackendHealth_def split: if_splits)

lemma step_brush_ok:
  assumes "step B e c = Some c'" and "brush_ok c"
  shows "brush_ok c'"
proof -
  from assms(1) obtain d where d: "handle B e c = Some d" and c': "c' = commit d"
    by (auto simp: step_def)
  from handle_brushSize[OF d] assms(2) show ?thesis
    by (auto simp: c' brush_ok_def commit_frame)
qed

lemma run_brush_ok: "run B es c0 = Some c \<Longrightarrow> brush_ok c0 \<Longrightarrow> brush_ok c"
proof (induction es arbitrary: c0)
  case Nil
  then show ?case by simp
next
  case (Cons e es)
  from Cons.prems(1) obtain c1 where s: "step B e c0 = Some c1" and r: "run B es c1 = Some c"
    by (auto split: option.splits)
  have "brush_ok c1" by (rule step_brush_ok[OF s Cons.prems(2)])
  then show ?case by (rule Cons.IH[OF r])
qed

text \<open>
  Claim C9.  The brush radius stays within 5 and 100: it starts at 20, and from any
  state whose radius is in that range every sequence of events, the two brush
  buttons among them, leads to a state whose radius is in that range.
\<close>

theorem brushSize_in_range:
  assumes "5 \<le> brushSize c0" and "brushSize c0 \<le> 100" and "run B es c0 = Some c"
  shows "brushSize initial = 20 \<and> 5 \<le> brushSize c \<and> brushSize c \<le> 100"
proof -
  have "brush_ok c0" using assms(1,2) by (simp add: brush_ok_def)
  then have "brush_ok c" by (rule run_brush_ok[OF assms(3)])
  then show ?thesis by (simp add: brush_ok_def initial_def)
qed

theorem brushSize_in_range_witness:
  "5 \<le> brushSize (example_loaded\<lparr>brushSize := 100\<rparr>)
   \<and> brushSize (example_loaded\<lparr>brushSize := 100\<rparr>) \<le> 100
   \<and> run example_browser [ClickPlus, ClickMinus] (example_loaded\<lparr>brushSize := 100\<rparr>)
       = Some (example_loaded\<lparr>brushSize := 95\<rparr>)
   \<and> brushSize initial = 20
   \<and> 5 \<le> brushSize (example_loaded\<lparr>brushSize := 95\<rparr>)
   \<and> brushSize (example_loaded\<lparr>brushSize := 95\<rparr>) \<le> 100"
proof -
  have r: "run example_browser [ClickPlus, ClickMinus] (example_loaded\<lparr>brushSize := 100\<rparr>)
             = Some (example_loaded\<lparr>brushSize := 95\<rparr>)"
    by (simp add: step_def example_loaded_eq editor_def truthy_def commit_def)
  have a: "5 \<le> brushSize (example_loaded\<lparr>brushSize := 100\<rparr>)"
    and b: "brushSize (example_loaded\<lparr>brushSize := 100\<rparr>) \<le> 100"
    by simp_all
  from brushSize_in_range [OF a b r] r a b show ?thesis by simp
qed

subsection \<open>One request in flight\<close>

lemma submit_single_flight:
  assumes "inflight c = []"
  shows "single_flight (submit c (applyProcessing B c))"
proof (cases "snd (applyProcessing B c)")
  case None
  then show ?thesis
    by (simp add: single_flight_def submit_def applyProcessing_frame assms)
next
  case (Some rq)
  then show ?thesis
    using applyProcessing_sends[OF Some]
    by (simp add: single_flight_def submit_def applyProcessing_frame assms)
qed

lemma remove_nth_single: "length xs = 1 \<Longrightarrow> n < length xs \<Longrightarrow> remove_nth n xs = []"
  by (cases xs) (auto simp: remove_nth_def)

lemma handle_single_flight:
  assumes "handle B e c = Some c'" and "single_flight c"
  shows "single_flight c'"
proof (cases e)
  case ClickApply
  with assms(1) have en: "\<not> isProcessing c" and c': "c' = submit c (applyProcessing B c)"
    by (auto simp: apply_disabled_def split: if_splits)
  from en assms(2) have "inflight c = []" by (auto simp: single_flight_def)
  then show ?thesis unfolding c' by (rule submit_single_flight)
next
  case (FetchDone n r)
  with assms(1) have n: "n < length (inflight c)"
    and c': "c' = applyProcessing_resume (closure_originalImage (inflight c ! n)) r
                   (c\<lparr>inflight := remove_nth n (inflight c)\<rparr>)"
    by (auto split: if_splits)
  from n assms(2) have "length (inflight c) = 1" by (auto simp: single_flight_def)
  then have "remove_nth n (inflight c) = []" using n by (rule remove_nth_single)
  then show ?thesis unfolding c' by (simp add: single_flight_def resume_frame)
next
  case (LoadDone n)
  with assms show ?thesis
    by (auto simp: single_flight_def fire_frame split: if_splits)
qed (use assms in \<open>auto simp: single_flight_def frame startDrawing_def stopDrawing_def
       newImage_def checkBackendHealth_def split: if_splits\<close>)

lemma step_single_flight:
  assumes "step B e c = Some c'" and "single_flight c"
  shows "single_flight c'"
proof -
  from assms(1) obtain d where d: "handle B e c = Some d" and c': "c' = commit d"
    by (auto simp: step_def)
  from handle_single_flight[OF d assms(2)] show ?thesis
    by (simp add: c' single_flight_def commit_frame)
qed

lemma run_single_flight: "run B es c0 = Some c \<Longrightarrow> single_flight c0 \<Longrightarrow> single_flight c"
proof (induction es arbitrary: c0)
  case Nil
  then show ?case by simp
next
  case (Cons e es)
  from Cons.prems(1) obtain c1 where s: "step B e c0 = Some c1" and r: "run B es c1 = Some c"
    by (auto split: option.splits)
  have "single_flight c1" by (rule step_single_flight[OF s Cons.prems(2)])
  then show ?case by (rule Cons.IH[OF r])
qed

text \<open>
  Claim C8.  At most one transform request is in flight.  From any state with no
  request outstanding, the initial one among them, every sequence of events leads to
  a state with at most one outstanding transform request; and while one is
  outstanding \<^verbatim>\<open>isProcessing\<close> is true, so the Apply button is disabled and a click
  on it is not delivered.
\<close>

theorem one_request_in_flight:
  assumes "inflight c0 = []" and "run B es c0 = Some c"
  shows "inflight initial = []
         \<and> length (inflight c) \<le> 1
         \<and> (inflight c \<noteq> [] \<longrightarrow> isProcessing c \<and> handle B ClickApply c = None)"
proof -
  have "single_flight c0" using assms(1) by (simp add: single_flight_def)
  then have "single_flight c" by (rule run_single_flight[OF assms(2)])
  then show ?thesis by (auto simp: single_flight_def apply_disabled_def initial_def)
qed

theorem one_request_in_flight_witness:
  "inflight example_painted = []
   \<and> run example_browser [ClickApply] example_painted = Some example_submitted
   \<and> inflight example_submitted \<noteq> []
   \<and> length (inflight example_submitted) \<le> 1
   \<and> isProcessing example_submitted
   \<and> handle example_browser ClickApply example_submitted = None"
proof -
  have a: "inflight example_painted = []" by (simp add: example_painted_def)
  have b: "inflight example_submitted \<noteq> []" by (simp add: example_submitted_def)
  from one_request_in_flight [OF a example_click_apply] a b example_click_apply
  show ?thesis by simp
qed

section \<open>The request\<close>

text \<open>
  Claim C2, as stated: every request body carries four fields, a \<open>mode\<close> string
  among them.  The body that Apply sends after a brush stroke on image \<open>A\<close> has the
  three fields \<open>image\<close>, \<open>mask\<close> and \<open>kernel_size\<close>, and no field \<open>mode\<close>.
\<close>

theorem request_body_has_no_mode_field:
  "snd (applyProcessing example_browser example_painted) = Some example_request
   \<and> map fst (body example_request) = [''image'', ''mask'', ''kernel_size'']
   \<and> map_of (body example_request) ''mode'' = None"
  by (simp add: example_apply) (simp add: example_request_def)

text \<open>
  Claim C2, amended.  Every transform request is a POST whose body carries exactly
  three fields: \<open>image\<close>, the working image (or null); \<open>mask\<close>, the mask canvas as
  a PNG data URL; and \<open>kernel_size\<close>, the number 35.  The mode is not a field of the
  body: it selects the endpoint, \<^verbatim>\<open>/blur\<close> when the mode is \<open>blur\<close> and
  \<^verbatim>\<open>/inpaint\<close> otherwise.  This holds for both versions of the component.
\<close>

theorem transform_request_shape:
  "(snd (applyProcessing B c) = Some rq \<longrightarrow>
      (\<exists>mk. maskCanvas c = Some mk
        \<and> rq = \<lparr>url = API_URL @ (if mode c = ''blur'' then ''/blur'' else ''/inpaint''),
                 http_method = ''POST'',
                 headers = [(''Content-Type'', ''application/json'')],
                 body = [(''image'',
                            case originalImage c of None \<Rightarrow> JNull | Some u \<Rightarrow> JString u),
                         (''mask'', JString (toDataURL B mk)),
                         (''kernel_size'', JNumber 35)]\<rparr>))
   \<and> (snd (BlurTool_applyProcessing B c) = Some rq \<longrightarrow>
      (\<exists>mk. maskCanvas c = Some mk
        \<and> rq = \<lparr>url = API_URL @ (if mode c = ''blur'' then ''/blur'' else ''/inpaint''),
                 http_method = ''POST'',
                 headers = [(''Content-Type'', ''application/json'')],
                 body = [(''image'',
                            case originalImage c of None \<Rightarrow> JNull | Some u \<Rightarrow> JString u),
                         (''mask'', JString (toDataURL B mk)),
                         (''kernel_size'', JNumber 35)]\<rparr>))"
  by (auto simp: applyProcessing_def BlurTool_applyProcessing_def transform_request_def Let_def
      split: if_splits option.splits)

theorem transform_request_shape_witness:
  "snd (applyProcessing example_browser (example_painted\<lparr>mode := ''inpaint''\<rparr>))
     = Some (example_request\<lparr>url := ''http://localhost:5000/api/inpaint''\<rparr>)
   \<and> snd (BlurTool_applyProcessing example_browser (example_painted\<lparr>mode := ''inpaint''\<rparr>))
     = Some (example_request\<lparr>url := ''http://localhost:5000/api/inpaint''\<rparr>)
   \<and> maskCanvas (example_painted\<lparr>mode := ''inpaint''\<rparr>)
     = Some \<lparr>width = 1, height = 1, pixels = [(255, 255, 255, 255)]\<rparr>
   \<and> body (example_request\<lparr>url := ''http://localhost:5000/api/inpaint''\<rparr>)
     = [(''image'', JString ''A''), (''mask'', JString ''data:image/png;base64,''),
        (''kernel_size'', JNumber 35)]"
proof -
  have a: "snd (applyProcessing example_browser (example_painted\<lparr>mode := ''inpaint''\<rparr>))
     = Some (example_request\<lparr>url := ''http://localhost:5000/api/inpaint''\<rparr>)"
    by (simp add: example_painted_def applyProcessing_def getImageData_def
        transform_request_def API_URL_def example_browser_def example_request_def)
  have b: "snd (BlurTool_applyProcessing example_browser (example_painted\<lparr>mode := ''inpaint''\<rparr>))
     = Some (example_request\<lparr>url := ''http://localhost:5000/api/inpaint''\<rparr>)"
    by (simp add: example_painted_def BlurTool_applyProcessing_def API_URL_def
        example_browser_def example_request_def)
  have m: "maskCanvas (example_painted\<lparr>mode := ''inpaint''\<rparr>)
     = Some \<lparr>width = 1, height = 1, pixels = [(255, 255, 255, 255)]\<rparr>"
    by (simp add: example_painted_def)
  from transform_request_shape [of example_browser "example_painted\<lparr>mode := ''inpaint''\<rparr>"
      "example_request\<lparr>url := ''http://localhost:5000/api/inpaint''\<rparr>"] a b m
  show ?thesis by (simp add: example_request_def)
qed

section \<open>Loading an image\<close>

text \<open>
  The handler and its two callbacks, case by case.  A file that is not of an image
  type or is larger than 10 MB, a read that fails and an image that does not decode
  each set the error and change nothing else.  Otherwise the handler starts the
  reader and the reader starts the image load.  When the image has decoded, the
  callback returns without any effect unless it finds both canvases; if it finds
  them, it draws the image on the resized canvas, fills the resized mask with black,
  which is all-zero, and records the image as \<^verbatim>\<open>image\<close> and as \<^verbatim>\<open>originalImage\<close>.
\<close>

lemma handleImageUpload_cases:
  "((\<not> startsWith (ftype f) ''image/'' \<or> 10 * 1024 * 1024 < fsize f) \<longrightarrow>
      error (handleImageUpload (Some f) c) \<noteq> None
      \<and> handleImageUpload (Some f) c = c\<lparr>error := error (handleImageUpload (Some f) c)\<rparr>)
   \<and> (startsWith (ftype f) ''image/'' \<and> fsize f \<le> 10 * 1024 * 1024 \<longrightarrow>
        handleImageUpload (Some f) c = c\<lparr>loads := loads c @ [ReaderLoad f]\<rparr>)
   \<and> (content f = None \<longrightarrow>
        fire B (ReaderLoad f) c = c\<lparr>error := Some ''Failed to read file''\<rparr>)
   \<and> (content f = Some u \<longrightarrow>
        fire B (ReaderLoad f) c = c\<lparr>loads := loads c @ [UploadImg u]\<rparr>)
   \<and> (decode B (Some u) = None \<longrightarrow>
        fire B (UploadImg u) c = c\<lparr>error := Some ''Failed to load image''\<rparr>)
   \<and> (decode B (Some u) = Some img \<and> (canvas c = None \<or> maskCanvas c = None) \<longrightarrow>
        fire B (UploadImg u) c = c)
   \<and> (decode B (Some u) = Some img \<and> canvas c = Some cv \<and> maskCanvas c = Some mk \<longrightarrow>
        fire B (UploadImg u) c =
          c\<lparr>canvas := Some (drawImage 255 img (blank (width img) (height img))),
            maskCanvas := Some (fillRect_all black (blank (width img) (height img))),
            globalAlpha := 255, imageSt := Some u, originalImage := Some u, error := None\<rparr>
        \<and> all_zero (fillRect_all black (blank (width img) (height img))))"
  by (auto simp: handleImageUpload_def cleared_mask_all_zero split: option.splits)

text \<open>On the page as first rendered, a file that is not an image sets the error and
  nothing else.\<close>

lemma invalid_upload_sets_error:
  "run example_browser [Upload (Some example_text_file)] initial
     = Some (initial\<lparr>error := Some ''Please upload a valid image file''\<rparr>)"
  by (simp add: example_text_file_def startsWith_def initial_def handleImageUpload_def eval_defs)

text \<open>
  From the state of the first render no sequence of events loads an image.  The
  upload callback returns early unless both canvases are mounted, and the canvases
  are part of the editor area, which is rendered only once \<^verbatim>\<open>image\<close> is set.
\<close>

lemma fire_unloaded:
  assumes "upload_task t" and "unloaded c"
  shows "unloaded (fire B t c)"
  using assms by (cases t) (auto simp: unloaded_def split: option.splits)

lemma remove_nth_all: "list_all P xs \<Longrightarrow> list_all P (remove_nth n xs)"
  by (auto simp: remove_nth_def list_all_iff dest: in_set_takeD in_set_dropD)

lemma handle_unloaded:
  assumes "handle B e c = Some c'" and "unloaded c"
  shows "unloaded c'"
proof -
  from assms(2) have ne: "\<not> editor c" by (simp add: unloaded_def editor_def truthy_def)
  show ?thesis
  proof (cases e)
    case (Upload fo)
    with assms ne have c': "c' = handleImageUpload fo c" by simp
    show ?thesis
      using assms(2) unfolding c'
      by (cases fo) (simp_all add: unloaded_def handleImageUpload_def)
  next
    case (LoadDone n)
    with assms(1) have n: "n < length (loads c)"
      and c': "c' = fire B (loads c ! n) (c\<lparr>loads := remove_nth n (loads c)\<rparr>)"
      by (simp_all split: if_splits)
    from assms(2) n have t: "upload_task (loads c ! n)"
      by (simp add: unloaded_def list_all_length)
    from assms(2) have "unloaded (c\<lparr>loads := remove_nth n (loads c)\<rparr>)"
      by (simp add: unloaded_def remove_nth_all)
    with t show ?thesis unfolding c' by (rule fire_unloaded)
  next
    case (HealthDone r)
    with assms(1) have c': "c' = checkBackendHealth_done r (c\<lparr>health := health c - 1\<rparr>)"
      by (simp split: if_splits)
    show ?thesis
      using assms(2) unfolding c'
      by (cases r) (simp_all add: unloaded_def checkBackendHealth_done_def)
  next
    case (FetchDone n r)
    with assms show ?thesis by (simp add: unloaded_def)
  next
    case ClickRetry
    with assms show ?thesis
      by (auto simp: unloaded_def checkBackendHealth_def split: if_splits)
  next
    case ClickDismiss
    with assms show ?thesis
      by (auto simp: unloaded_def split: if_splits)
  qed (use assms(1) ne in simp_all)
qed

lemma step_unloaded:
  assumes "step B e c = Some c'" and "unloaded c"
  shows "unloaded c'"
proof -
  from assms(1) obtain d where d: "handle B e c = Some d" and c': "c' = commit d"
    by (auto simp: step_def)
  from handle_unloaded[OF d assms(2)] show ?thesis
    by (simp add: c' unloaded_def commit_def editor_def truthy_def)
qed

lemma run_unloaded: "run B es c0 = Some c \<Longrightarrow> unloaded c0 \<Longrightarrow> unloaded c"
proof (induction es arbitrary: c0)
  case Nil
  then show ?case by simp
next
  case (Cons e es)
  from Cons.prems(1) obtain c1 where s: "step B e c0 = Some c1" and r: "run B es c1 = Some c"
    by (auto split: option.splits)
  have "unloaded c1" by (rule step_unloaded[OF s Cons.prems(2)])
  then show ?case by (rule Cons.IH[OF r])
qed

lemma no_image_from_first_render:
  assumes "run B es initial = Some c"
  shows "imageSt c = None \<and> canvas c = None \<and> maskCanvas c = None"
proof -
  have "unloaded initial" by (simp add: unloaded_def initial_def)
  then have "unloaded c" by (rule run_unloaded[OF assms])
  then show ?thesis by (simp add: unloaded_def)
qed

text \<open>
  Claim C5.  Loading a decodable image of an admissible size is to record it as the
  working image and as the original, and to reset the mask.  On the page as first
  rendered a PNG file of 12 bytes that holds image \<open>A\<close> is chosen; the handler starts
  the reader, the reader loads and starts the image, the image decodes.  Then nothing
  is recorded and no error is set: the state is that of the first render again.  The
  callback of the image returns at \<^verbatim>\<open>if (!canvas || !maskCanvas) return\<close>, since both
  canvases are rendered only once \<^verbatim>\<open>image\<close> is set.
\<close>

theorem valid_upload_is_dropped:
  "startsWith (ftype example_png_file) ''image/''
   \<and> fsize example_png_file \<le> 10 * 1024 * 1024
   \<and> content example_png_file = Some ''A''
   \<and> decode example_browser (Some ''A'')
        = Some \<lparr>width = 1, height = 1, pixels = [(10, 20, 30, 255)]\<rparr>
   \<and> run example_browser [Upload (Some example_png_file)] initial
        = Some (initial\<lparr>loads := [ReaderLoad example_png_file]\<rparr>)
   \<and> run example_browser [Upload (Some example_png_file), LoadDone 0] initial
        = Some (initial\<lparr>loads := [UploadImg ''A'']\<rparr>)
   \<and> run example_browser [Upload (Some example_png_file), LoadDone 0, LoadDone 0] initial
        = Some initial
   \<and> imageSt initial = None
   \<and> originalImage initial = None
   \<and> error initial = None
   \<and> canvas initial = None
   \<and> maskCanvas initial = None"
  by (simp add: example_png_file_def startsWith_def initial_def handleImageUpload_def eval_defs)

section \<open>Applying a result\<close>

text \<open>
  The rest of \<^verbatim>\<open>applyProcessing\<close> and the callbacks of its image, case by case.  A
  successful answer queues the load of the returned image.  When that image has
  decoded and the canvases are there, the callback draws it on the canvas, sets
  \<^verbatim>\<open>originalImage\<close> to it, fills the mask with black, which is all-zero, and, through
  \<^verbatim>\<open>clearMask\<close>, queues a redraw of the \<^verbatim>\<open>originalImage\<close> that \<^verbatim>\<open>applyProcessing\<close>
  captured.  A returned image that does not decode, and an answer whose \<open>success\<close> is
  false, set the error and leave the images and the mask as they were.
\<close>

lemma applyProcessing_callbacks:
  "(success d \<longrightarrow>
      applyProcessing_resume u (Json d) c =
        c\<lparr>loads := loads c @ [ResultImg (result d) u], isProcessing := False\<rparr>)
   \<and> (decode B src = Some img \<and> canvas c = Some cv \<and> maskCanvas c = Some mk \<longrightarrow>
        fire B (ResultImg src u) c =
          c\<lparr>canvas := Some (drawImage (globalAlpha c) img cv), originalImage := src,
            maskCanvas := Some (fillRect_all black mk),
            loads := loads c @ [RedrawImg (Captured (mounts c)) u]\<rparr>
        \<and> all_zero (fillRect_all black mk))
   \<and> (decode B src = None \<longrightarrow>
        fire B (ResultImg src u) c = c\<lparr>error := Some ''Failed to load processed image''\<rparr>)
   \<and> (\<not> success d \<longrightarrow>
        error (applyProcessing_resume u (Json d) c) \<noteq> None
        \<and> applyProcessing_resume u (Json d) c =
            c\<lparr>error := error (applyProcessing_resume u (Json d) c), isProcessing := False\<rparr>)"
  by (simp add: applyProcessing_resume_def clearMask_def cleared_mask_all_zero)

text \<open>An answer whose \<open>success\<close> is false, after a click on Apply in the painted
  state: only the error is set.\<close>

lemma failed_answer_sets_error:
  "run example_browser [ClickApply, FetchDone 0 (Json example_failed)] example_painted
     = Some (example_painted\<lparr>error := Some ''No image provided''\<rparr>)"
  by (simp add: example_painted_def example_failed_def eval_defs)

text \<open>Once the queued redraw has loaded too, the canvas holds the captured image drawn
  over the returned one, while \<^verbatim>\<open>originalImage\<close> is the returned one.\<close>

lemma stale_redraw:
  assumes "decode B src = Some img" and "decode B u = Some old"
    and "canvas c = Some cv" and "maskCanvas c = Some mk"
  shows "canvas (fire B (RedrawImg (Captured (mounts c)) u) (fire B (ResultImg src u) c))
         = Some (drawImage (globalAlpha c) old (drawImage (globalAlpha c) img cv))"
    and "originalImage (fire B (RedrawImg (Captured (mounts c)) u) (fire B (ResultImg src u) c))
         = src"
proof -
  have r: "fire B (ResultImg src u) c =
          c\<lparr>canvas := Some (drawImage (globalAlpha c) img cv), originalImage := src,
            maskCanvas := Some (fillRect_all black mk),
            loads := loads c @ [RedrawImg (Captured (mounts c)) u]\<rparr>"
    using assms(1,3,4) by (simp add: clearMask_def)
  show "canvas (fire B (RedrawImg (Captured (mounts c)) u) (fire B (ResultImg src u) c))
         = Some (drawImage (globalAlpha c) old (drawImage (globalAlpha c) img cv))"
    unfolding r using assms(2) by simp
  show "originalImage (fire B (RedrawImg (Captured (mounts c)) u) (fire B (ResultImg src u) c))
         = src"
    unfolding r using assms(2) by simp
qed

text \<open>
  Claim C3.  On a successful answer the client is to replace the working image with
  the returned image and to clear the mask.  Image \<open>A\<close> is loaded and painted on,
  Apply is clicked and answered with success and image \<open>B\<close>.  When \<open>B\<close> has loaded,
  the canvas shows \<open>B\<close>, \<^verbatim>\<open>originalImage\<close> is \<open>B\<close>, the mask is all black, and one
  image load is outstanding: the redraw that \<^verbatim>\<open>clearMask\<close> started with the
  \<^verbatim>\<open>originalImage\<close> of the render in which Apply was clicked, which is \<open>A\<close>.  When
  it has loaded, \<^verbatim>\<open>originalImage\<close> is \<open>B\<close> and the canvas, which Download saves,
  shows \<open>A\<close>.
\<close>

theorem apply_success_shows_the_previous_image:
  "decode example_browser (Some ''A'')
       = Some \<lparr>width = 1, height = 1, pixels = [(10, 20, 30, 255)]\<rparr>
   \<and> decode example_browser (Some ''B'')
       = Some \<lparr>width = 1, height = 1, pixels = [(200, 100, 50, 255)]\<rparr>
   \<and> originalImage example_painted = Some ''A''
   \<and> success example_ok
   \<and> result example_ok = Some ''B''
   \<and> run example_browser [ClickApply, FetchDone 0 (Json example_ok), LoadDone 0] example_painted
       = Some (example_painted\<lparr>originalImage := Some ''B'',
           canvas := Some \<lparr>width = 1, height = 1, pixels = [(200, 100, 50, 255)]\<rparr>,
           maskCanvas := Some \<lparr>width = 1, height = 1, pixels = [(0, 0, 0, 255)]\<rparr>,
           loads := [RedrawImg (Captured 1) (Some ''A'')]\<rparr>)
   \<and> run example_browser [ClickApply, FetchDone 0 (Json example_ok), LoadDone 0, LoadDone 0]
         example_painted
       = Some (example_painted\<lparr>originalImage := Some ''B'',
           canvas := Some \<lparr>width = 1, height = 1, pixels = [(10, 20, 30, 255)]\<rparr>,
           maskCanvas := Some \<lparr>width = 1, height = 1, pixels = [(0, 0, 0, 255)]\<rparr>\<rparr>)"
  by (simp add: example_painted_def example_ok_def eval_defs)

section \<open>Reset\<close>

text \<open>
  Claim C7.  Reset is to restore the working image, in the state and on the visible
  canvas, to the image as it was loaded, and to clear the mask.  Image \<open>A\<close> is
  loaded, painted on and edited into \<open>B\<close>; then Reset is clicked and its two image
  loads complete in the order in which they were started.  The state and the mask
  are restored, but the canvas shows the edited image \<open>B\<close>: \<^verbatim>\<open>resetImage\<close> draws
  \<open>A\<close>, and the \<^verbatim>\<open>clearMask\<close> it calls then draws the \<^verbatim>\<open>originalImage\<close> of the
  render in which Reset was clicked, which is \<open>B\<close>.
\<close>

theorem reset_shows_the_edited_image:
  "run example_browser [ClickApply, FetchDone 0 (Json example_ok), LoadDone 0, LoadDone 0]
       example_painted = Some example_edited
   \<and> imageSt example_edited = Some ''A''
   \<and> originalImage example_edited = Some ''B''
   \<and> run example_browser [ClickReset, LoadDone 0, LoadDone 0] example_edited
       = Some example_after_reset
   \<and> originalImage example_after_reset = Some ''A''
   \<and> maskCanvas example_after_reset = Some \<lparr>width = 1, height = 1, pixels = [(0, 0, 0, 255)]\<rparr>
   \<and> decode example_browser (Some ''A'')
       = Some \<lparr>width = 1, height = 1, pixels = [(10, 20, 30, 255)]\<rparr>
   \<and> decode example_browser (Some ''B'')
       = Some \<lparr>width = 1, height = 1, pixels = [(200, 100, 50, 255)]\<rparr>
   \<and> canvas example_after_reset
       = Some \<lparr>width = 1, height = 1, pixels = [(200, 100, 50, 255)]\<rparr>"
  by (simp add: example_painted_def example_edited_def example_after_reset_def example_ok_def
      eval_defs)

text \<open>When the second load completes before the first, the canvas shows \<open>A\<close>.\<close>

lemma reset_other_order:
  "run example_browser [ClickReset, LoadDone 1, LoadDone 0] example_edited
     = Some (example_after_reset\<lparr>canvas :=
         Some \<lparr>width = 1, height = 1, pixels = [(10, 20, 30, 255)]\<rparr>\<rparr>)"
  by (simp add: example_painted_def example_edited_def example_after_reset_def eval_defs)

section \<open>The preview\<close>

text \<open>
  For an opaque working image of the size of the canvas, the preview callback leaves
  exactly the working image with the highlight over the selected pixels:
  \<^verbatim>\<open>drawImage\<close> replaces every pixel, and the loop visits pixel \<open>k\<close> at byte
  \<open>4 * k\<close> and paints position \<open>(k mod width, k div width)\<close>.
\<close>

declare overlay_loop.simps [simp del]

lemma source_over_opaque: "alpha s = 255 \<Longrightarrow> source_over (scale_alpha 255 s) d = s"
  by (cases s; cases d) (simp add: compositing_defs scale_alpha_def alpha_def)

lemma length_bytes: "length (concat (map (\<lambda>(r, g, b, a). [r, g, b, a]) ps)) = 4 * length ps"
  by (induction ps) (auto split: prod.splits)

lemma length_getImageData: "length (getImageData b) = 4 * length (pixels b)"
  by (simp add: getImageData_def length_bytes)

lemma bytes_nth:
  "j < length ps \<Longrightarrow> concat (map (\<lambda>(r, g, b, a). [r, g, b, a]) ps) ! (4 * j) = red (ps ! j)"
proof (induction ps arbitrary: j)
  case Nil
  then show ?case by simp
next
  case (Cons p ps)
  show ?case
  proof (cases j)
    case 0
    then show ?thesis by (cases p) (simp add: red_def)
  next
    case (Suc i)
    with Cons.prems have "i < length ps" by simp
    from Cons.IH[OF this] Suc show ?thesis
      by (cases p) (simp add: nth_append)
  qed
qed

lemma getImageData_nth:
  "j < length (pixels b) \<Longrightarrow> getImageData b ! (4 * j) = red (pixels b ! j)"
  by (simp add: getImageData_def bytes_nth)

lemma drawImage_opaque:
  assumes "length (pixels cv) = width cv * height cv"
    and "length (pixels img) = width img * height img"
    and "width img = width cv" and "height img = height cv"
    and "opaque img"
  shows "drawImage 255 img cv = img"
proof -
  have px: "pixels (drawImage 255 img cv) = pixels img"
  proof (rule nth_equalityI)
    show "length (pixels (drawImage 255 img cv)) = length (pixels img)"
      using assms by (simp add: drawImage_def)
  next
    fix i
    assume "i < length (pixels (drawImage 255 img cv))"
    then have i: "i < width cv * height cv" using assms(1) by (simp add: drawImage_def)
    then have w: "0 < width cv" by (cases "width cv") auto
    have x: "i mod width cv < width cv" using w by simp
    have y: "i div width cv < height cv"
      using i w by (simp add: less_mult_imp_div_less mult.commute)
    have a: "alpha (pixels img ! i) = 255"
      using assms(2-5) i by (simp add: opaque_def list_all_length)
    show "pixels (drawImage 255 img cv) ! i = pixels img ! i"
      using i x y a assms(1-4) by (simp add: drawImage_def Let_def source_over_opaque)
  qed
  show ?thesis
    using px assms(3,4) by (simp add: drawImage_def)
qed

lemma fillRect1_at:
  assumes "length (pixels b) = width b * height b" and "k < length (pixels b)"
  shows "fillRect1 col (k mod width b) (k div width b) b =
         b\<lparr>pixels := (pixels b)[k := source_over col (pixels b ! k)]\<rparr>"
proof -
  from assms have k: "k < width b * height b" by simp
  then have w: "0 < width b" by (cases "width b") auto
  have y: "k div width b < height b"
    using k w by (simp add: less_mult_imp_div_less mult.commute)
  show ?thesis using w y assms(2) by (simp add: fillRect1_def)
qed

lemma overlay_loop_from:
  assumes "length (pixels mk) = length (pixels b)"
    and "length (pixels b) = width b * height b"
    and "k \<le> length (pixels b)"
  shows "overlay_loop (getImageData mk) (width b) (4 * k) b =
         b\<lparr>pixels := map (\<lambda>j. if k \<le> j \<and> selected (pixels mk ! j)
                                then source_over red_overlay (pixels b ! j)
                                else pixels b ! j) [0..<length (pixels b)]\<rparr>"
  using assms
proof (induction "length (pixels b) - k" arbitrary: k b)
  case 0
  then have k: "k = length (pixels b)" by simp
  have "overlay_loop (getImageData mk) (width b) (4 * k) b = b"
    using k "0.prems"(1) by (subst overlay_loop.simps) (simp add: length_getImageData)
  moreover have "map (\<lambda>j. if k \<le> j \<and> selected (pixels mk ! j)
                                then source_over red_overlay (pixels b ! j)
                                else pixels b ! j) [0..<length (pixels b)] = pixels b"
    using k by (intro nth_equalityI) auto
  ultimately show ?case by simp
next
  case (Suc n)
  then have k: "k < length (pixels b)" by simp
  then have w: "0 < width b" using Suc.prems(2) by (cases "width b") auto
  define b' where "b' = (if selected (pixels mk ! k)
     then b\<lparr>pixels := (pixels b)[k := source_over red_overlay (pixels b ! k)]\<rparr> else b)"
  have len: "length (pixels b') = length (pixels b)" "width b' = width b" "height b' = height b"
    by (simp_all add: b'_def)
  have step: "overlay_loop (getImageData mk) (width b) (4 * k) b =
              overlay_loop (getImageData mk) (width b') (4 * Suc k) b'"
    using k w Suc.prems(1,2)
    by (subst overlay_loop.simps)
       (simp add: length_getImageData getImageData_nth selected_def b'_def fillRect1_at
          add.commute)
  have ih: "overlay_loop (getImageData mk) (width b') (4 * Suc k) b' =
         b'\<lparr>pixels := map (\<lambda>j. if Suc k \<le> j \<and> selected (pixels mk ! j)
                                then source_over red_overlay (pixels b' ! j)
                                else pixels b' ! j) [0..<length (pixels b')]\<rparr>"
    using Suc.hyps(2) Suc.prems k by (intro Suc.hyps(1)) (simp_all add: len)
  have "map (\<lambda>j. if Suc k \<le> j \<and> selected (pixels mk ! j)
                                then source_over red_overlay (pixels b' ! j)
                                else pixels b' ! j) [0..<length (pixels b')]
      = map (\<lambda>j. if k \<le> j \<and> selected (pixels mk ! j)
                                then source_over red_overlay (pixels b ! j)
                                else pixels b ! j) [0..<length (pixels b)]"
    unfolding len(1)
  proof (rule map_cong[OF refl])
    fix j
    assume "j \<in> set [0..<length (pixels b)]"
    then have j: "j < length (pixels b)" by simp
    have nth: "pixels b' ! j = (if j = k \<and> selected (pixels mk ! k)
                 then source_over red_overlay (pixels b ! k) else pixels b ! j)"
      using j by (simp add: b'_def nth_list_update)
    show "(if Suc k \<le> j \<and> selected (pixels mk ! j)
           then source_over red_overlay (pixels b' ! j) else pixels b' ! j)
        = (if k \<le> j \<and> selected (pixels mk ! j)
           then source_over red_overlay (pixels b ! j) else pixels b ! j)"
      unfolding nth by (cases "j = k") auto
  qed
  moreover have "b'\<lparr>pixels := ps\<rparr> = b\<lparr>pixels := ps\<rparr>" for ps
    by (simp add: b'_def)
  ultimately show ?case using step ih by simp
qed

lemma preview_opaque:
  assumes "length (pixels cv) = width cv * height cv"
    and "length (pixels img) = width img * height img"
    and "length (pixels mk) = width mk * height mk"
    and "width img = width cv" and "height img = height cv"
    and "width mk = width cv" and "height mk = height cv"
    and "0 < width cv" and "0 < height cv"
    and "opaque img"
  shows "preview_onload 255 img mk cv = (highlighted img mk, 255)"
proof -
  have d: "drawImage 255 img cv = img"
    using assms(1,2,4,5,10) by (rule drawImage_opaque)
  have l: "length (pixels mk) = length (pixels img)" using assms by simp
  have "overlay_loop (getImageData mk) (width img) (4 * 0) img =
         img\<lparr>pixels := map (\<lambda>j. if 0 \<le> j \<and> selected (pixels mk ! j)
                                then source_over red_overlay (pixels img ! j)
                                else pixels img ! j) [0..<length (pixels img)]\<rparr>"
    using l assms(2) by (intro overlay_loop_from) simp_all
  moreover have "map (\<lambda>j. if 0 \<le> j \<and> selected (pixels mk ! j)
                                then source_over red_overlay (pixels img ! j)
                                else pixels img ! j) [0..<length (pixels img)]
     = map (\<lambda>(p, m). if selected m then source_over red_overlay p else p)
                       (zip (pixels img) (pixels mk))"
    using l by (intro nth_equalityI) auto
  ultimately show ?thesis
    using d assms(4,6,7,8,9) by (simp add: preview_onload_def highlighted_def)
qed


text \<open>
  Claim C6.  After every paint event the preview is to be the working image with the
  highlight over exactly the selected pixels, the same after repeated strokes as
  after one.  The working image \<open>T\<close> is one fully transparent pixel.  After one
  stroke the canvas is the highlighted image; after a second stroke over the same
  pixel the mask is the same and the canvas is not: \<^verbatim>\<open>drawImage\<close> composites the
  transparent image over the previous preview, which stays, and the highlight is
  laid over it again.
\<close>

theorem preview_darkens_on_transparent_image:
  "originalImage example_transparent = Some ''T''
   \<and> decode example_browser (Some ''T'') = Some \<lparr>width = 1, height = 1, pixels = [(0, 0, 0, 0)]\<rparr>
   \<and> run example_browser [MouseDown (0, 0), LoadDone 0] example_transparent
       = Some example_one_stroke
   \<and> run example_browser [MouseDown (0, 0), LoadDone 0, MouseMove (0, 0), LoadDone 0]
       example_transparent = Some example_two_strokes
   \<and> maskCanvas example_one_stroke
       = Some \<lparr>width = 1, height = 1, pixels = [(255, 255, 255, 255)]\<rparr>
   \<and> maskCanvas example_two_strokes
       = Some \<lparr>width = 1, height = 1, pixels = [(255, 255, 255, 255)]\<rparr>
   \<and> highlighted \<lparr>width = 1, height = 1, pixels = [(0, 0, 0, 0)]\<rparr>
        \<lparr>width = 1, height = 1, pixels = [(255, 255, 255, 255)]\<rparr>
       = \<lparr>width = 1, height = 1, pixels = [(255, 0, 0, 102)]\<rparr>
   \<and> canvas example_one_stroke = Some \<lparr>width = 1, height = 1, pixels = [(255, 0, 0, 102)]\<rparr>
   \<and> canvas example_two_strokes = Some \<lparr>width = 1, height = 1, pixels = [(255, 0, 0, 163)]\<rparr>"
  by (simp add: example_transparent_eq example_one_stroke_def example_two_strokes_def
      highlighted_def selected_def red_def eval_defs overlay_loop.simps)

section \<open>The engine's feathering\<close>






















lemma gaussian_kernel: "kernel (gaussian_weights sigma r) r"
proof -
  define Z where "Z = (\<Sum>t = - int r..int r. exp (- (real (nat \<bar>t\<bar>))\<^sup>2 / (2 * sigma\<^sup>2)))"
  have "exp (- (real (nat \<bar>0::int\<bar>))\<^sup>2 / (2 * sigma\<^sup>2)) \<le> Z"
    unfolding Z_def by (intro member_le_sum) (auto intro: less_imp_le)
  then have Z: "0 < Z" by (rule less_le_trans[OF exp_gt_zero])
  have w: "gaussian_weights sigma r d = exp (- (real d)\<^sup>2 / (2 * sigma\<^sup>2)) / Z" for d
    by (simp add: gaussian_weights_def Z_def)
  have pos: "0 < gaussian_weights sigma r d" for d
    using Z by (simp add: w)
  have mono: "gaussian_weights sigma r n \<le> gaussian_weights sigma r m" if "m \<le> n" for m n
  proof -
    from that have "(real m)\<^sup>2 \<le> (real n)\<^sup>2" by (intro power_mono) simp_all
    then have "- (real n)\<^sup>2 / (2 * sigma\<^sup>2) \<le> - (real m)\<^sup>2 / (2 * sigma\<^sup>2)"
      by (intro divide_right_mono) simp_all
    then show ?thesis using Z by (simp add: w divide_right_mono)
  qed
  have "(\<Sum>d = - int r..int r. gaussian_weights sigma r (nat \<bar>d\<bar>)) = Z / Z"
    unfolding w sum_divide_distrib[symmetric] by (simp add: Z_def)
  then have "(\<Sum>d = - int r..int r. gaussian_weights sigma r (nat \<bar>d\<bar>)) = 1"
    using Z by simp
  with pos mono show ?thesis by (simp add: kernel_def)
qed














end
